theory Spec2Isabelle
  imports Complex_Main "HOL-Library.Sublist"
begin

section \<open>Arithmetic on amounts\<close>

text \<open>
  Amounts are Python floats (\<^verbatim>\<open>montant: float\<close>; the interface builds them with
  \<^verbatim>\<open>float(...)\<close>). A finite float is modelled by the rational number it denotes, and
  every arithmetic operation of the source is the exact operation followed by a rounding
  \<open>fl\<close>. The rounding is a parameter of every function that computes:
  \<^item> \<open>exact\<close> (no rounding) is arithmetic on the exact numbers that the floats stand
    for;
  \<^item> \<open>binary64\<close> is IEEE-754 double precision with round-to-nearest, ties-to-even, which
    is what the source does on floats.
  Infinities and NaN are not modelled: amounts are taken to stay below the overflow
  threshold of binary64.
\<close>

definition exact :: "rat \<Rightarrow> rat" where
  "exact x = x"

fun bitlen :: "nat \<Rightarrow> nat" where
  "bitlen n = (if n = 0 then 0 else Suc (bitlen (n div 2)))"

declare bitlen.simps [simp del]

definition scale2 :: "rat \<Rightarrow> int \<Rightarrow> rat" where
  "scale2 x k = (if 0 \<le> k then x * 2 ^ nat k else x / 2 ^ nat (- k))"

text \<open>\<open>expo x\<close> is the integer \<open>e\<close> with \<open>2^e \<le> x < 2^(e+1)\<close>, for \<open>x > 0\<close>.\<close>

definition expo :: "rat \<Rightarrow> int" where
  "expo x =
     (if 1 \<le> x then int (bitlen (nat \<lfloor>x\<rfloor>)) - 1
      else (let j = int (bitlen (nat \<lfloor>1 / x\<rfloor>)) - 1
            in if scale2 x j = 1 then - j else - j - 1))"

definition round_half_even :: "rat \<Rightarrow> int" where
  "round_half_even x =
     (let n = \<lfloor>x\<rfloor>; r = x - of_int n
      in if r < 1 / 2 then n else if 1 / 2 < r then n + 1
         else if even n then n else n + 1)"

text \<open>
  The nearest double: 53 significant bits, the exponent not below that of the
  subnormal numbers.
\<close>

definition binary64 :: "rat \<Rightarrow> rat" where
  "binary64 x =
     (if x = 0 then 0
      else (let k = 52 - max (expo \<bar>x\<bar>) (- 1022);
                m = round_half_even (scale2 \<bar>x\<bar> k)
            in sgn x * scale2 (of_int m) (- k)))"

datatype raison =
    Code_compte_invalide
  | Classe_hors_bornes
  | Montant_negatif
  | Jeu_vide
  | Desequilibre rat rat

datatype error = ValueError raison | ZeroDivisionError

definition fadd :: "(rat \<Rightarrow> rat) \<Rightarrow> rat \<Rightarrow> rat \<Rightarrow> rat" where
  "fadd fl a b = fl (a + b)"

definition fsub :: "(rat \<Rightarrow> rat) \<Rightarrow> rat \<Rightarrow> rat \<Rightarrow> rat" where
  "fsub fl a b = fl (a - b)"

text \<open>Python's \<^verbatim>\<open>/\<close> raises ZeroDivisionError on a zero denominator.\<close>

definition fdiv :: "(rat \<Rightarrow> rat) \<Rightarrow> rat \<Rightarrow> rat \<Rightarrow> error + rat" where
  "fdiv fl a b = (if b = 0 then Inl ZeroDivisionError else Inr (fl (a / b)))"

text \<open>
  \<^verbatim>\<open>sum(...)\<close> starts from 0 and adds the items from left to right, each addition
  rounded. On integer amounts below \<open>2^53\<close> every addition is exact, so the order and the
  way of summing do not matter there.
\<close>

definition py_sum :: "(rat \<Rightarrow> rat) \<Rightarrow> rat list \<Rightarrow> rat" where
  "py_sum fl xs = foldl (fadd fl) 0 xs"

section \<open>Data model (simple\_models.py)\<close>

datatype Sens = DEBIT | CREDIT

record LigneCompte =
  code_compte :: string
  libelle :: string
  classe :: int
  sens :: Sens
  montant :: rat
  periode :: string

text \<open>\<^verbatim>\<open>LigneCompte.__post_init__\<close>: the three checks, in the source's order.\<close>

definition LigneCompte_init ::
  "string \<Rightarrow> string \<Rightarrow> int \<Rightarrow> Sens \<Rightarrow> rat \<Rightarrow> string \<Rightarrow> error + LigneCompte" where
  "LigneCompte_init code lib cl s m p =
     (if code = [] \<or> length code < 3 then Inl (ValueError Code_compte_invalide)
      else if \<not> (1 \<le> cl \<and> cl \<le> 9) then Inl (ValueError Classe_hors_bornes)
      else if m < 0 then Inl (ValueError Montant_negatif)
      else Inr \<lparr>code_compte = code, libelle = lib, classe = cl, sens = s,
                montant = m, periode = p\<rparr>)"

text \<open>A line that its own constructor accepts.\<close>

definition ligne_valide :: "LigneCompte \<Rightarrow> bool" where
  "ligne_valide l \<longleftrightarrow>
     LigneCompte_init (code_compte l) (libelle l) (classe l) (sens l) (montant l)
       (LigneCompte.periode l) = Inr l"

record JeuDonnees =
  lignes :: "LigneCompte list"
  periode :: string
  entreprise :: string

definition montants :: "(LigneCompte \<Rightarrow> bool) \<Rightarrow> LigneCompte list \<Rightarrow> rat list" where
  "montants P ls = map montant (filter P ls)"

definition total_sens :: "(rat \<Rightarrow> rat) \<Rightarrow> Sens \<Rightarrow> LigneCompte list \<Rightarrow> rat" where
  "total_sens fl s ls = py_sum fl (montants (\<lambda>l. sens l = s) ls)"

text \<open>\<^verbatim>\<open>JeuDonnees.__post_init__\<close>; the literal \<^verbatim>\<open>0.01\<close> is the float nearest to 1/100.\<close>

definition JeuDonnees_init ::
  "(rat \<Rightarrow> rat) \<Rightarrow> LigneCompte list \<Rightarrow> string \<Rightarrow> string \<Rightarrow> error + JeuDonnees" where
  "JeuDonnees_init fl ls p e =
     (if ls = [] then Inl (ValueError Jeu_vide)
      else (let total_debit = total_sens fl DEBIT ls;
                total_credit = total_sens fl CREDIT ls
            in if \<bar>fsub fl total_debit total_credit\<bar> > fl (1 / 100)
               then Inl (ValueError (Desequilibre total_debit total_credit))
               else Inr \<lparr>lignes = ls, periode = p, entreprise = e\<rparr>))"

definition get_total_classe :: "(rat \<Rightarrow> rat) \<Rightarrow> JeuDonnees \<Rightarrow> int \<Rightarrow> rat" where
  "get_total_classe fl d c = py_sum fl (montants (\<lambda>l. classe l = c) (lignes d))"

definition get_total_sens :: "(rat \<Rightarrow> rat) \<Rightarrow> JeuDonnees \<Rightarrow> Sens \<Rightarrow> rat" where
  "get_total_sens fl d s = total_sens fl s (lignes d)"

text \<open>
  A valid dataset: one that \<^verbatim>\<open>JeuDonnees(...)\<close> returns, built from lines that
  \<^verbatim>\<open>LigneCompte(...)\<close> returned.
\<close>

definition jeu_valide :: "(rat \<Rightarrow> rat) \<Rightarrow> JeuDonnees \<Rightarrow> bool" where
  "jeu_valide fl d \<longleftrightarrow>
     list_all ligne_valide (lignes d) \<and>
     JeuDonnees_init fl (lignes d) (JeuDonnees.periode d) (entreprise d) = Inr d"

record BilanFonctionnel =
  emplois_stables :: rat
  ressources_stables :: rat
  frng :: rat
  actifs_circulants :: rat
  passifs_circulants :: rat
  bfr :: rat
  tresorerie_active :: rat
  tresorerie_passive :: rat
  tresorerie_nette :: rat
  periode :: string

record BilanFinancier =
  immobilisations_nettes :: rat
  stocks :: rat
  creances_clients :: rat
  autres_creances :: rat
  tresorerie_active :: rat
  total_actif :: rat
  capital_social :: rat
  reserves :: rat
  resultat_net :: rat
  capitaux_propres :: rat
  dettes_financieres_lt :: rat
  dettes_fournisseurs :: rat
  autres_dettes_ct :: rat
  tresorerie_passive :: rat
  total_passif :: rat
  periode :: string

record PatrimoineEntreprise =
  actifs_economiques :: rat
  dettes_financieres :: rat
  actif_net_comptable :: rat
  capitaux_propres_retraites :: rat
  patrimoine_net :: rat
  periode :: string
  ratio_endettement :: "rat option"
  ratio_solvabilite :: "rat option"
  ratio_liquidite :: "rat option"

section \<open>Calculators (simple\_transforms.py)\<close>

definition startswith :: "string \<Rightarrow> string \<Rightarrow> bool" where
  "startswith s p = prefix p s"

text \<open>The \<^verbatim>\<open>for\<close> loop that accumulates \<^verbatim>\<open>ressources_stables\<close> with \<^verbatim>\<open>+=\<close>.\<close>

definition boucle_ressources_stables :: "(rat \<Rightarrow> rat) \<Rightarrow> LigneCompte list \<Rightarrow> rat" where
  "boucle_ressources_stables fl ls =
     foldl (\<lambda>acc ligne.
              if classe ligne \<in> {1, 5} \<and> sens ligne = CREDIT
              then fadd fl acc (montant ligne) else acc) 0 ls"

definition calculer_bilan_fonctionnel ::
  "(rat \<Rightarrow> rat) \<Rightarrow> JeuDonnees \<Rightarrow> BilanFonctionnel" where
  "calculer_bilan_fonctionnel fl donnees =
     (let emplois_stables' = py_sum fl
            (montants (\<lambda>l. classe l = 2 \<and> sens l = DEBIT) (lignes donnees));
          ressources_stables' = boucle_ressources_stables fl (lignes donnees);
          frng' = fsub fl ressources_stables' emplois_stables';
          actifs_circulants' = py_sum fl
            (montants (\<lambda>l. classe l \<in> {3, 4} \<and> sens l = DEBIT) (lignes donnees));
          passifs_circulants' = py_sum fl
            (montants (\<lambda>l. classe l \<in> {3, 4} \<and> sens l = CREDIT) (lignes donnees));
          bfr' = fsub fl actifs_circulants' passifs_circulants';
          tresorerie_active' = py_sum fl
            (montants (\<lambda>l. classe l = 5 \<and> sens l = DEBIT) (lignes donnees));
          tresorerie_passive' = py_sum fl
            (montants (\<lambda>l. classe l = 5 \<and> sens l = CREDIT) (lignes donnees));
          tresorerie_nette' = fsub fl tresorerie_active' tresorerie_passive'
      in \<lparr>emplois_stables = emplois_stables',
          ressources_stables = ressources_stables',
          frng = frng',
          actifs_circulants = actifs_circulants',
          passifs_circulants = passifs_circulants',
          bfr = bfr',
          tresorerie_active = tresorerie_active',
          tresorerie_passive = tresorerie_passive',
          tresorerie_nette = tresorerie_nette',
          periode = JeuDonnees.periode donnees\<rparr>)"

definition calculer_bilan_financier ::
  "(rat \<Rightarrow> rat) \<Rightarrow> JeuDonnees \<Rightarrow> BilanFinancier" where
  "calculer_bilan_financier fl donnees =
     (let immobilisations_nettes' = py_sum fl
            (montants (\<lambda>l. classe l = 2 \<and> sens l = DEBIT) (lignes donnees));
          stocks' = py_sum fl
            (montants (\<lambda>l. classe l = 3 \<and> sens l = DEBIT) (lignes donnees));
          creances_clients' = py_sum fl
            (montants (\<lambda>l. classe l = 4 \<and> sens l = DEBIT
                          \<and> startswith (code_compte l) ''342'') (lignes donnees));
          autres_creances' = py_sum fl
            (montants (\<lambda>l. classe l = 4 \<and> sens l = DEBIT
                          \<and> \<not> startswith (code_compte l) ''342'') (lignes donnees));
          tresorerie_active' = py_sum fl
            (montants (\<lambda>l. classe l = 5 \<and> sens l = DEBIT) (lignes donnees));
          total_actif' =
            fadd fl (fadd fl (fadd fl (fadd fl immobilisations_nettes' stocks')
              creances_clients') autres_creances') tresorerie_active';
          capital_social' = py_sum fl
            (montants (\<lambda>l. classe l = 1 \<and> sens l = CREDIT
                          \<and> startswith (code_compte l) ''111'') (lignes donnees));
          reserves' = py_sum fl
            (montants (\<lambda>l. classe l = 1 \<and> sens l = CREDIT
                          \<and> startswith (code_compte l) ''11''
                          \<and> \<not> startswith (code_compte l) ''111'') (lignes donnees));
          resultat_net' = fsub fl
            (py_sum fl (montants (\<lambda>l. classe l \<in> {6, 7} \<and> sens l = CREDIT)
               (lignes donnees)))
            (py_sum fl (montants (\<lambda>l. classe l \<in> {6, 7} \<and> sens l = DEBIT)
               (lignes donnees)));
          capitaux_propres' =
            fadd fl (fadd fl capital_social' reserves') (max 0 resultat_net');
          dettes_financieres_lt' = py_sum fl
            (montants (\<lambda>l. classe l = 1 \<and> sens l = CREDIT
                          \<and> startswith (code_compte l) ''14'') (lignes donnees));
          dettes_fournisseurs' = py_sum fl
            (montants (\<lambda>l. classe l = 4 \<and> sens l = CREDIT
                          \<and> startswith (code_compte l) ''441'') (lignes donnees));
          autres_dettes_ct' = py_sum fl
            (montants (\<lambda>l. classe l = 4 \<and> sens l = CREDIT
                          \<and> \<not> startswith (code_compte l) ''441'') (lignes donnees));
          tresorerie_passive' = py_sum fl
            (montants (\<lambda>l. classe l = 5 \<and> sens l = CREDIT) (lignes donnees));
          total_passif' =
            fadd fl (fadd fl (fadd fl (fadd fl capitaux_propres' dettes_financieres_lt')
              dettes_fournisseurs') autres_dettes_ct') tresorerie_passive'
      in \<lparr>immobilisations_nettes = immobilisations_nettes',
          stocks = stocks',
          creances_clients = creances_clients',
          autres_creances = autres_creances',
          tresorerie_active = tresorerie_active',
          total_actif = total_actif',
          capital_social = capital_social',
          reserves = reserves',
          resultat_net = resultat_net',
          capitaux_propres = capitaux_propres',
          dettes_financieres_lt = dettes_financieres_lt',
          dettes_fournisseurs = dettes_fournisseurs',
          autres_dettes_ct = autres_dettes_ct',
          tresorerie_passive = tresorerie_passive',
          total_passif = total_passif',
          periode = JeuDonnees.periode donnees\<rparr>)"

text \<open>
  A conditional expression \<^verbatim>\<open>a / b if b > 0 else 0\<close>: the division is evaluated
  only in the first branch.
\<close>

definition ratio_ou_zero :: "(rat \<Rightarrow> rat) \<Rightarrow> rat \<Rightarrow> rat \<Rightarrow> error + rat" where
  "ratio_ou_zero fl a b = (if b > 0 then fdiv fl a b else Inr 0)"

definition calculer_patrimoine ::
  "(rat \<Rightarrow> rat) \<Rightarrow> JeuDonnees \<Rightarrow> error + PatrimoineEntreprise" where
  "calculer_patrimoine fl donnees =
     (let actifs_economiques' = py_sum fl
            (montants (\<lambda>l. classe l \<in> {2, 3, 4, 5} \<and> sens l = DEBIT) (lignes donnees));
          dettes_financieres' = py_sum fl
            (montants (\<lambda>l. classe l = 1 \<and> sens l = CREDIT
                          \<and> \<not> startswith (code_compte l) ''11'') (lignes donnees));
          actif_net_comptable' = fsub fl actifs_economiques' dettes_financieres';
          capitaux_propres_retraites' = py_sum fl
            (montants (\<lambda>l. classe l = 1 \<and> sens l = CREDIT
                          \<and> startswith (code_compte l) ''11'') (lignes donnees));
          patrimoine_net' = actif_net_comptable'
      in case ratio_ou_zero fl dettes_financieres' actifs_economiques' of
           Inl e \<Rightarrow> Inl e
         | Inr ratio_endettement' \<Rightarrow>
             (case ratio_ou_zero fl capitaux_propres_retraites' dettes_financieres' of
                Inl e \<Rightarrow> Inl e
              | Inr ratio_solvabilite' \<Rightarrow>
                  Inr \<lparr>actifs_economiques = actifs_economiques',
                       dettes_financieres = dettes_financieres',
                       actif_net_comptable = actif_net_comptable',
                       capitaux_propres_retraites = capitaux_propres_retraites',
                       patrimoine_net = patrimoine_net',
                       periode = JeuDonnees.periode donnees,
                       ratio_endettement = Some ratio_endettement',
                       ratio_solvabilite = Some ratio_solvabilite',
                       ratio_liquidite = Some 1\<rparr>))"

section \<open>Diagnostic analyzer (simple\_transforms.py)\<close>

text \<open>
  The format specification \<^verbatim>\<open>,.2f\<close>: two decimals, rounded from the exact value
  with ties to even, and a comma between groups of three digits of the integer part.
\<close>

fun chiffres :: "nat \<Rightarrow> string" where
  "chiffres n =
     (if n < 10 then [char_of (48 + n)]
      else chiffres (n div 10) @ [char_of (48 + n mod 10)])"

declare chiffres.simps [simp del]

fun milliers :: "string \<Rightarrow> string" where
  "milliers ds =
     (if length ds \<le> 3 then ds
      else milliers (take (length ds - 3) ds) @ '','' @ drop (length ds - 3) ds)"

declare milliers.simps [simp del]

definition format_2f :: "rat \<Rightarrow> string" where
  "format_2f x =
     (let n = nat (round_half_even (\<bar>x\<bar> * 100))
      in (if x < 0 then ''-'' else []) @ milliers (chiffres (n div 100)) @ ''.''
         @ [char_of (48 + n mod 100 div 10), char_of (48 + n mod 10)])"

text \<open>The accented letters of the messages, in UTF-8.\<close>

definition e_aigu :: string where
  "e_aigu = [CHR 0xC3, CHR 0xA9]"

definition e_grave :: string where
  "e_grave = [CHR 0xC3, CHR 0xA8]"

definition apostrophe :: string where
  "apostrophe = [CHR 0x27]"

record analyse =
  points_cles :: "string list"
  recommandations :: "string list"
  alertes :: "string list"

datatype rapport =
    Fonctionnel BilanFonctionnel
  | Financier BilanFinancier
  | Patrimoine PatrimoineEntreprise

definition analyse_vide :: analyse where
  "analyse_vide = \<lparr>points_cles = [], recommandations = [], alertes = []\<rparr>"

definition ajouter_point :: "string \<Rightarrow> analyse \<Rightarrow> analyse" where
  "ajouter_point m a = a\<lparr>points_cles := points_cles a @ [m]\<rparr>"

definition ajouter_recommandation :: "string \<Rightarrow> analyse \<Rightarrow> analyse" where
  "ajouter_recommandation m a = a\<lparr>recommandations := recommandations a @ [m]\<rparr>"

definition ajouter_alerte :: "string \<Rightarrow> analyse \<Rightarrow> analyse" where
  "ajouter_alerte m a = a\<lparr>alertes := alertes a @ [m]\<rparr>"

definition msg_endettement_patrimonial :: string where
  "msg_endettement_patrimonial = ''Endettement patrimonial '' @ e_aigu @ ''lev'' @ e_aigu"

definition msg_solvabilite :: string where
  "msg_solvabilite = ''Solvabilit'' @ e_aigu @ '' compromise''"

text \<open>
  \<^verbatim>\<open>x and x > s\<close> on an optional ratio: \<^verbatim>\<open>None\<close> and zero are falsy, so the
  comparison is made only for a ratio that is present and not zero.
\<close>

definition vrai_et_superieur :: "rat option \<Rightarrow> rat \<Rightarrow> bool" where
  "vrai_et_superieur r s = (case r of None \<Rightarrow> False | Some x \<Rightarrow> x \<noteq> 0 \<and> x > s)"

definition vrai_et_inferieur :: "rat option \<Rightarrow> rat \<Rightarrow> bool" where
  "vrai_et_inferieur r s = (case r of None \<Rightarrow> False | Some x \<Rightarrow> x \<noteq> 0 \<and> x < s)"

fun analyser_rapport :: "(rat \<Rightarrow> rat) \<Rightarrow> rapport \<Rightarrow> error + analyse" where
  "analyser_rapport fl (Fonctionnel r) =
     (let a1 = (if frng r > 0
                then ajouter_point
                       ''FRNG positif : bonne couverture des emplois stables'' analyse_vide
                else ajouter_recommandation ''Renforcer les ressources stables''
                       (ajouter_alerte
                          (''FRNG n'' @ e_aigu @ ''gatif : d'' @ e_aigu
                             @ ''pendance aux financements court terme'') analyse_vide));
          a2 = (if bfr r > 0
                then ajouter_recommandation
                       (''Optimiser le cycle d'' @ apostrophe @ ''exploitation'')
                       (ajouter_point (''BFR positif de '' @ format_2f (bfr r)) a1)
                else a1);
          a3 = (if tresorerie_nette r < 0
                then ajouter_recommandation
                       (''Am'' @ e_aigu @ ''liorer la gestion de tr'' @ e_aigu @ ''sorerie'')
                       (ajouter_alerte
                          (''Tr'' @ e_aigu @ ''sorerie n'' @ e_aigu @ ''gative'') a2)
                else a2)
      in Inr a3)"
| "analyser_rapport fl (Financier r) =
     (if total_actif r > 0
      then (case fdiv fl (fsub fl (total_passif r) (capitaux_propres r)) (total_actif r) of
              Inl e \<Rightarrow> Inl e
            | Inr ratio_endettement' \<Rightarrow>
                (let a1 = (if ratio_endettement' > fl (7 / 10)
                           then ajouter_recommandation
                                  (''R'' @ e_aigu @ ''duire l'' @ apostrophe @ ''endettement'')
                                  (ajouter_alerte
                                     (''Taux d'' @ apostrophe @ ''endettement ''
                                        @ e_aigu @ ''lev'' @ e_aigu) analyse_vide)
                           else analyse_vide)
                 in case fdiv fl (capitaux_propres r) (total_passif r) of
                      Inl e \<Rightarrow> Inl e
                    | Inr ratio_autonomie \<Rightarrow>
                        Inr (if ratio_autonomie < fl (3 / 10)
                             then ajouter_alerte
                                    (''Faible autonomie financi'' @ e_grave @ ''re'') a1
                             else a1)))
      else Inr analyse_vide)"
| "analyser_rapport fl (Patrimoine r) =
     (let a1 = (if vrai_et_superieur (ratio_endettement r) (fl (1 / 2))
                then ajouter_alerte msg_endettement_patrimonial analyse_vide
                else analyse_vide);
          a2 = (if vrai_et_inferieur (ratio_solvabilite r) 1
                then ajouter_alerte msg_solvabilite a1
                else a1)
      in Inr a2)"

section \<open>Datasets used below\<close>

text \<open>The nine entries of the end-to-end scenario (the fixture of the repository's tests).\<close>

definition ecriture :: "string \<Rightarrow> string \<Rightarrow> int \<Rightarrow> Sens \<Rightarrow> rat \<Rightarrow> LigneCompte" where
  "ecriture code lib cl s m =
     \<lparr>code_compte = code, libelle = lib, classe = cl, sens = s, montant = m,
      periode = ''2024''\<rparr>"

definition lignes_scenario :: "LigneCompte list" where
  "lignes_scenario =
     [ecriture ''1111'' ''Capital social'' 1 CREDIT 100000,
      ecriture ''2111'' ''Frais constitution'' 2 DEBIT 5000,
      ecriture ''2340'' (''Mat'' @ e_aigu @ ''riel transport'') 2 DEBIT 25000,
      ecriture ''3111'' ''Stocks marchandises'' 3 DEBIT 15000,
      ecriture ''3421'' ''Clients'' 4 DEBIT 20000,
      ecriture ''4411'' ''Fournisseurs'' 4 CREDIT 12000,
      ecriture ''5141'' ''Banque'' 5 DEBIT 50000,
      ecriture ''5514'' ''Caisse'' 5 DEBIT 7000,
      ecriture ''1191'' (''R'' @ e_aigu @ ''sultat de l'' @ apostrophe @ ''exercice'')
        1 CREDIT 10000]"

definition jeu :: "LigneCompte list \<Rightarrow> JeuDonnees" where
  "jeu ls = \<lparr>lignes = ls, periode = ''2024'', entreprise = ''Test Entreprise''\<rparr>"

definition jeu_scenario :: JeuDonnees where
  "jeu_scenario = jeu lignes_scenario"

text \<open>An expense of 100 paid from the bank account.\<close>

definition jeu_charge :: JeuDonnees where
  "jeu_charge =
     jeu [ecriture ''6111'' ''Achats'' 6 DEBIT 100,
          ecriture ''5141'' ''Banque'' 5 CREDIT 100]"

text \<open>A fixed asset of 100, written off by a depreciation of 100.\<close>

definition jeu_amorti :: JeuDonnees where
  "jeu_amorti =
     jeu [ecriture ''2340'' ''Materiel'' 2 DEBIT 100,
          ecriture ''2834'' ''Amortissements'' 2 CREDIT 100]"

text \<open>
  Amounts \<^verbatim>\<open>0.3\<close>, \<^verbatim>\<open>0.2\<close> and \<^verbatim>\<open>0.1\<close> on each side: the floats nearest to
  3/10, 2/10 and 1/10.
\<close>

definition jeu_decimales :: JeuDonnees where
  "jeu_decimales =
     jeu [ecriture ''3421'' ''Clients'' 4 DEBIT (binary64 (3 / 10)),
          ecriture ''3111'' ''Stocks marchandises'' 3 DEBIT (binary64 (2 / 10)),
          ecriture ''2340'' ''Materiel'' 2 DEBIT (binary64 (1 / 10)),
          ecriture ''1191'' ''Report'' 1 CREDIT (binary64 (3 / 10)),
          ecriture ''1111'' ''Capital social'' 1 CREDIT (binary64 (2 / 10)),
          ecriture ''1112'' ''Capital social'' 1 CREDIT (binary64 (1 / 10))]"

text \<open>Own capital of 100000 and a loan of 50000, invested and kept at the bank.\<close>

definition jeu_emprunt :: JeuDonnees where
  "jeu_emprunt =
     jeu [ecriture ''1111'' ''Capital social'' 1 CREDIT 100000,
          ecriture ''1481'' ''Emprunts'' 1 CREDIT 50000,
          ecriture ''2340'' ''Materiel'' 2 DEBIT 90000,
          ecriture ''5141'' ''Banque'' 5 DEBIT 60000]"

text \<open>The patrimonial reports of \<open>jeu_scenario\<close> and of \<open>jeu_decimales\<close>.\<close>

definition patrimoine_scenario :: PatrimoineEntreprise where
  "patrimoine_scenario =
     \<lparr>actifs_economiques = 122000, dettes_financieres = 0,
      actif_net_comptable = 122000, capitaux_propres_retraites = 110000,
      patrimoine_net = 122000, periode = ''2024'',
      ratio_endettement = Some 0, ratio_solvabilite = Some 0,
      ratio_liquidite = Some 1\<rparr>"

definition patrimoine_decimales :: PatrimoineEntreprise where
  "patrimoine_decimales =
     \<lparr>actifs_economiques = 5404319552844595 / 9007199254740992,
      dettes_financieres = 0,
      actif_net_comptable = 5404319552844595 / 9007199254740992,
      capitaux_propres_retraites = 5404319552844595 / 9007199254740992,
      patrimoine_net = 5404319552844595 / 9007199254740992,
      periode = ''2024'',
      ratio_endettement = Some 0, ratio_solvabilite = Some 0,
      ratio_liquidite = Some 1\<rparr>"


text \<open>
  The dataset of the repository's integration test (\<^verbatim>\<open>tests/test_integration.py\<close>):
  23 entries, 318000 on each side. The labels are written without their accents; they
  play no part in the computation.
\<close>

definition jeu_integration :: JeuDonnees where
  "jeu_integration =
     jeu [ecriture ''1111'' ''Capital social'' 1 CREDIT 100000,
          ecriture ''1119'' ''Report a nouveau'' 1 CREDIT 5000,
          ecriture ''1191'' ''Resultat de l exercice'' 1 CREDIT 15000,
          ecriture ''2111'' ''Frais de constitution'' 2 DEBIT 5000,
          ecriture ''2332'' ''Materiel et outillage'' 2 DEBIT 45000,
          ecriture ''2340'' ''Materiel de transport'' 2 DEBIT 30000,
          ecriture ''2813'' ''Amortissements materiel outillage'' 2 CREDIT 9000,
          ecriture ''2834'' ''Amortissements materiel transport'' 2 CREDIT 6000,
          ecriture ''3111'' ''Stocks de marchandises'' 3 DEBIT 25000,
          ecriture ''3421'' ''Clients'' 4 DEBIT 35000,
          ecriture ''3458'' ''Etat, TVA recuperable'' 4 DEBIT 8000,
          ecriture ''4411'' ''Fournisseurs'' 4 CREDIT 18000,
          ecriture ''4456'' ''Etat, TVA due'' 4 CREDIT 12000,
          ecriture ''5141'' ''Banque'' 5 DEBIT 45000,
          ecriture ''5161'' ''Caisse'' 5 DEBIT 12000,
          ecriture ''6111'' ''Achats de marchandises'' 6 DEBIT 80000,
          ecriture ''6133'' ''Entretien et reparations'' 6 DEBIT 5000,
          ecriture ''6171'' ''Remunerations du personnel'' 6 DEBIT 25000,
          ecriture ''6311'' ''Interets des emprunts'' 6 DEBIT 3000,
          ecriture ''7111'' ''Ventes de marchandises'' 7 CREDIT 120000,
          ecriture ''7127'' ''Ventes de produits accessoires'' 7 CREDIT 8000,
          ecriture ''7381'' ''Interets et produits assimiles'' 7 CREDIT 2000,
          ecriture ''1191'' ''Resultat de l exercice'' 1 CREDIT 23000]"

section \<open>Auxiliary facts\<close>

subsection \<open>Exact arithmetic\<close>

lemma fadd_exact: "fadd exact a b = a + b"
  by (simp add: fadd_def exact_def)

lemma foldl_fadd_exact: "foldl (fadd exact) a xs = a + sum_list xs"
  by (induction xs arbitrary: a) (simp_all add: fadd_exact)

lemma py_sum_exact: "py_sum exact xs = sum_list xs"
  by (simp add: py_sum_def foldl_fadd_exact)

subsection \<open>Sums of amounts that are not negative\<close>

lemma foldl_fadd_nonneg:
  assumes fl: "\<forall>x. 0 \<le> x \<longrightarrow> 0 \<le> fl x"
  shows "0 \<le> a \<Longrightarrow> list_all (\<lambda>x. 0 \<le> x) xs \<Longrightarrow> 0 \<le> foldl (fadd fl) a xs"
proof (induction xs arbitrary: a)
  case Nil
  then show ?case by simp
next
  case (Cons x xs)
  from Cons.prems have "0 \<le> a + x" by simp
  with fl have "0 \<le> fadd fl a x" by (simp add: fadd_def)
  moreover from Cons.prems have "list_all (\<lambda>x. 0 \<le> x) xs" by simp
  ultimately show ?case using Cons.IH by simp
qed

lemma py_sum_nonneg:
  "\<forall>x. 0 \<le> x \<longrightarrow> 0 \<le> fl x \<Longrightarrow> list_all (\<lambda>x. 0 \<le> x) xs \<Longrightarrow> 0 \<le> py_sum fl xs"
  unfolding py_sum_def by (rule foldl_fadd_nonneg) simp_all

lemma ligne_valide_montant: "ligne_valide l \<Longrightarrow> 0 \<le> montant l"
  by (auto simp: ligne_valide_def LigneCompte_init_def split: if_splits)

lemma montants_nonneg:
  "list_all ligne_valide ls \<Longrightarrow> list_all (\<lambda>x. 0 \<le> x) (montants P ls)"
  by (induction ls) (auto simp: montants_def ligne_valide_montant)

subsection \<open>Prefixes of account codes\<close>

lemma startswith_111_11: "startswith s ''111'' \<Longrightarrow> startswith s ''11''"
  by (auto simp: startswith_def prefix_def)

subsection \<open>Rounding to binary64\<close>

lemma bitlen_le: "n < 2 ^ m \<Longrightarrow> bitlen n \<le> m"
proof (induction m arbitrary: n)
  case 0
  then show ?case by (simp add: bitlen.simps)
next
  case (Suc m)
  show ?case
  proof (cases "n = 0")
    case True
    then show ?thesis by (simp add: bitlen.simps)
  next
    case False
    from Suc.prems have "n div 2 < 2 ^ m" by simp
    then have "bitlen (n div 2) \<le> m" by (rule Suc.IH)
    with False show ?thesis by (subst bitlen.simps) simp
  qed
qed

lemma round_half_even_of_int: "round_half_even (of_int j) = j"
  by (simp add: round_half_even_def)

lemma scale2_nonneg: "0 \<le> x \<Longrightarrow> 0 \<le> scale2 x k"
  by (simp add: scale2_def)

lemma round_half_even_nonneg: "0 \<le> x \<Longrightarrow> 0 \<le> round_half_even x"
  by (auto simp: round_half_even_def Let_def)

lemma binary64_nonneg: "0 \<le> x \<Longrightarrow> 0 \<le> binary64 x"
  by (simp add: binary64_def Let_def scale2_nonneg round_half_even_nonneg)

text \<open>Integers below \<open>2^53\<close> in magnitude are floats: rounding leaves them as they are.\<close>

lemma binary64_of_int:
  assumes "\<bar>n\<bar> < 2 ^ 53"
  shows "binary64 (of_int n) = of_int n"
proof (cases "n = 0")
  case True
  then show ?thesis by (simp add: binary64_def)
next
  case False
  define a where "a = \<bar>n\<bar>"
  have a: "1 \<le> a" "a < 2 ^ 53" using False assms by (simp_all add: a_def)
  have abs_n: "\<bar>of_int n :: rat\<bar> = of_int a" by (simp add: a_def)
  have "nat a < 2 ^ 53" using a by (simp add: nat_less_iff)
  then have bl: "bitlen (nat a) \<le> 53" by (rule bitlen_le)
  have e: "expo (of_int a) = int (bitlen (nat a)) - 1"
    using a by (simp add: expo_def)
  define k where "k = 52 - max (expo (of_int a)) (- 1022)"
  have k: "0 \<le> k" using bl by (simp add: k_def e)
  have "scale2 (of_int a) k = of_int (a * 2 ^ nat k)"
    using k by (simp add: scale2_def)
  then have m: "round_half_even (scale2 (of_int a) k) = a * 2 ^ nat k"
    by (simp only: round_half_even_of_int)
  have retour: "scale2 (of_int (a * 2 ^ nat k)) (- k) = of_int a"
    using k by (cases "k = 0") (simp_all add: scale2_def)
  have nz: "(of_int n :: rat) \<noteq> 0" using False by simp
  have "binary64 (of_int n)
      = sgn (of_int n) * scale2 (of_int (round_half_even (scale2 (of_int a) k))) (- k)"
    unfolding binary64_def Let_def abs_n k_def using nz by simp
  also have "\<dots> = sgn (of_int n) * of_int a"
    by (simp only: m retour)
  also have "\<dots> = of_int n"
    by (simp add: a_def sgn_if)
  finally show ?thesis .
qed

lemma binary64_numeral:
  "numeral w < (2::int) ^ 53 \<Longrightarrow> binary64 (numeral w) = numeral w"
  using binary64_of_int [of "numeral w"] by simp

lemma binary64_neg_numeral:
  "numeral w < (2::int) ^ 53 \<Longrightarrow> binary64 (- numeral w) = - numeral w"
  using binary64_of_int [of "- numeral w"] by simp

lemma binary64_0: "binary64 0 = 0"
  by (simp add: binary64_def)

lemma binary64_1: "binary64 1 = 1"
  using binary64_of_int [of 1] by simp

lemmas binary64_entier = binary64_numeral binary64_neg_numeral binary64_0 binary64_1

text \<open>The literals \<^verbatim>\<open>0.01\<close>, \<^verbatim>\<open>0.5\<close>, \<^verbatim>\<open>0.1\<close>, \<^verbatim>\<open>0.2\<close> and \<^verbatim>\<open>0.3\<close> as floats.\<close>

lemma binary64_centieme: "binary64 (1 / 100) = 5764607523034235 / 576460752303423488"
  by code_simp


lemma binary64_dixieme: "binary64 (1 / 10) = 3602879701896397 / 36028797018963968"
  by code_simp

lemma binary64_cinquieme: "binary64 (1 / 5) = 3602879701896397 / 18014398509481984"
  by code_simp

lemma binary64_trois_dixiemes: "binary64 (3 / 10) = 5404319552844595 / 18014398509481984"
  by code_simp

text \<open>The float additions that the reports of \<open>jeu_decimales\<close> perform.\<close>

lemma fadd_0_dixieme:
  "fadd binary64 0 (3602879701896397 / 36028797018963968)
     = 3602879701896397 / 36028797018963968"
  by code_simp

lemma fadd_0_cinquieme:
  "fadd binary64 0 (3602879701896397 / 18014398509481984)
     = 3602879701896397 / 18014398509481984"
  by code_simp

lemma fadd_0_trois_dixiemes:
  "fadd binary64 0 (5404319552844595 / 18014398509481984)
     = 5404319552844595 / 18014398509481984"
  by code_simp

lemma fadd_03_02:
  "fadd binary64 (5404319552844595 / 18014398509481984)
     (3602879701896397 / 18014398509481984) = 1 / 2"
  by code_simp

lemma fadd_05_01:
  "fadd binary64 (1 / 2) (3602879701896397 / 36028797018963968)
     = 5404319552844595 / 9007199254740992"
  by code_simp

lemma fadd_01_02:
  "fadd binary64 (3602879701896397 / 36028797018963968)
     (3602879701896397 / 18014398509481984) = 1351079888211149 / 4503599627370496"
  by code_simp

lemma fadd_02_01:
  "fadd binary64 (3602879701896397 / 18014398509481984)
     (3602879701896397 / 36028797018963968) = 1351079888211149 / 4503599627370496"
  by code_simp

lemma fadd_030_03:
  "fadd binary64 (1351079888211149 / 4503599627370496)
     (5404319552844595 / 18014398509481984) = 1351079888211149 / 2251799813685248"
  by code_simp

lemma fadd_060_0:
  "fadd binary64 (1351079888211149 / 2251799813685248) 0
     = 1351079888211149 / 2251799813685248"
  by code_simp

lemma fsub_06_0:
  "fsub binary64 (5404319552844595 / 9007199254740992) 0
     = 5404319552844595 / 9007199254740992"
  by code_simp

lemma fadd_0_0: "fadd binary64 0 0 = 0"
  by (simp add: fadd_def binary64_0)

lemma fsub_0_0: "fsub binary64 0 0 = 0"
  by (simp add: fsub_def binary64_0)

lemma fsub_self: "fsub binary64 x x = 0"
  by (simp add: fsub_def binary64_0)

lemmas binary64_decimales =
  binary64_dixieme binary64_cinquieme binary64_trois_dixiemes binary64_centieme
  binary64_0 fadd_0_dixieme fadd_0_cinquieme fadd_0_trois_dixiemes fadd_03_02 fadd_05_01
  fadd_01_02 fadd_02_01 fadd_030_03 fadd_060_0 fsub_06_0 fadd_0_0 fsub_0_0 fsub_self

subsection \<open>The reports of the datasets\<close>

lemmas calcul_defs = montants_def py_sum_def fdiv_def startswith_def
  boucle_ressources_stables_def ecriture_def jeu_def Let_def total_sens_def
  ratio_ou_zero_def

lemmas valide_defs = jeu_valide_def ligne_valide_def LigneCompte_init_def
  JeuDonnees_init_def e_aigu_def apostrophe_def

lemma valide_scenario: "jeu_valide binary64 jeu_scenario"
  by (simp add: valide_defs jeu_scenario_def lignes_scenario_def calcul_defs
      fadd_def fsub_def binary64_entier binary64_centieme)

lemma valide_charge: "jeu_valide binary64 jeu_charge"
  by (simp add: valide_defs jeu_charge_def calcul_defs
      fadd_def fsub_def binary64_entier binary64_centieme)

lemma valide_amorti: "jeu_valide binary64 jeu_amorti"
  by (simp add: valide_defs jeu_amorti_def calcul_defs
      fadd_def fsub_def binary64_entier binary64_centieme)

lemma valide_emprunt: "jeu_valide binary64 jeu_emprunt"
  by (simp add: valide_defs jeu_emprunt_def calcul_defs
      fadd_def fsub_def binary64_entier binary64_centieme)

lemma valide_decimales: "jeu_valide binary64 jeu_decimales"
  by (simp add: valide_defs jeu_decimales_def calcul_defs binary64_decimales)

lemma fonctionnel_scenario:
  "calculer_bilan_fonctionnel binary64 jeu_scenario =
     \<lparr>emplois_stables = 30000, ressources_stables = 110000, frng = 80000,
      actifs_circulants = 35000, passifs_circulants = 12000, bfr = 23000,
      tresorerie_active = 57000, tresorerie_passive = 0, tresorerie_nette = 57000,
      periode = ''2024''\<rparr>"
  by (simp add: calculer_bilan_fonctionnel_def jeu_scenario_def lignes_scenario_def
      calcul_defs fadd_def fsub_def binary64_entier)

lemma financier_scenario:
  "calculer_bilan_financier binary64 jeu_scenario =
     \<lparr>immobilisations_nettes = 30000, stocks = 15000, creances_clients = 20000,
      autres_creances = 0, tresorerie_active = 57000, total_actif = 122000,
      capital_social = 100000, reserves = 10000, resultat_net = 0,
      capitaux_propres = 110000, dettes_financieres_lt = 0,
      dettes_fournisseurs = 12000, autres_dettes_ct = 0, tresorerie_passive = 0,
      total_passif = 122000, periode = ''2024''\<rparr>"
  by (simp add: calculer_bilan_financier_def jeu_scenario_def lignes_scenario_def
      calcul_defs fadd_def fsub_def binary64_entier)

lemma patrimoine_scenario_eq:
  "calculer_patrimoine binary64 jeu_scenario = Inr patrimoine_scenario"
  by (simp add: calculer_patrimoine_def patrimoine_scenario_def jeu_scenario_def
      lignes_scenario_def calcul_defs fadd_def fsub_def binary64_entier)

lemma fonctionnel_charge:
  "calculer_bilan_fonctionnel binary64 jeu_charge =
     \<lparr>emplois_stables = 0, ressources_stables = 100, frng = 100,
      actifs_circulants = 0, passifs_circulants = 0, bfr = 0,
      tresorerie_active = 0, tresorerie_passive = 100, tresorerie_nette = - 100,
      periode = ''2024''\<rparr>"
  by (simp add: calculer_bilan_fonctionnel_def jeu_charge_def
      calcul_defs fadd_def fsub_def binary64_entier)

lemma financier_charge:
  "calculer_bilan_financier binary64 jeu_charge =
     \<lparr>immobilisations_nettes = 0, stocks = 0, creances_clients = 0,
      autres_creances = 0, tresorerie_active = 0, total_actif = 0,
      capital_social = 0, reserves = 0, resultat_net = - 100,
      capitaux_propres = 0, dettes_financieres_lt = 0,
      dettes_fournisseurs = 0, autres_dettes_ct = 0, tresorerie_passive = 100,
      total_passif = 100, periode = ''2024''\<rparr>"
  by (simp add: calculer_bilan_financier_def jeu_charge_def
      calcul_defs fadd_def fsub_def binary64_entier)

lemma financier_amorti:
  "calculer_bilan_financier binary64 jeu_amorti =
     \<lparr>immobilisations_nettes = 100, stocks = 0, creances_clients = 0,
      autres_creances = 0, tresorerie_active = 0, total_actif = 100,
      capital_social = 0, reserves = 0, resultat_net = 0,
      capitaux_propres = 0, dettes_financieres_lt = 0,
      dettes_fournisseurs = 0, autres_dettes_ct = 0, tresorerie_passive = 0,
      total_passif = 0, periode = ''2024''\<rparr>"
  by (simp add: calculer_bilan_financier_def jeu_amorti_def
      calcul_defs fadd_def fsub_def binary64_entier)

lemma valide_integration: "jeu_valide binary64 jeu_integration"
  by (simp add: valide_defs jeu_integration_def calcul_defs
      fadd_def fsub_def binary64_entier binary64_centieme)

lemma fonctionnel_integration:
  "calculer_bilan_fonctionnel binary64 jeu_integration =
     \<lparr>emplois_stables = 80000, ressources_stables = 143000, frng = 63000,
      actifs_circulants = 68000, passifs_circulants = 30000, bfr = 38000,
      tresorerie_active = 57000, tresorerie_passive = 0, tresorerie_nette = 57000,
      periode = ''2024''\<rparr>"
  by (simp add: calculer_bilan_fonctionnel_def jeu_integration_def
      calcul_defs fadd_def fsub_def binary64_entier)

lemma financier_integration:
  "calculer_bilan_financier binary64 jeu_integration =
     \<lparr>immobilisations_nettes = 80000, stocks = 25000, creances_clients = 35000,
      autres_creances = 8000, tresorerie_active = 57000, total_actif = 205000,
      capital_social = 105000, reserves = 38000, resultat_net = 17000,
      capitaux_propres = 160000, dettes_financieres_lt = 0,
      dettes_fournisseurs = 18000, autres_dettes_ct = 12000, tresorerie_passive = 0,
      total_passif = 190000, periode = ''2024''\<rparr>"
  by (simp add: calculer_bilan_financier_def jeu_integration_def
      calcul_defs fadd_def fsub_def binary64_entier)

lemma total_actif_decimales:
  "total_actif (calculer_bilan_financier binary64 jeu_decimales)
     = 1351079888211149 / 2251799813685248"
  by (simp add: calculer_bilan_financier_def jeu_decimales_def calcul_defs
      binary64_decimales)

lemma capital_reserves_decimales:
  "fadd binary64 (capital_social (calculer_bilan_financier binary64 jeu_decimales))
     (reserves (calculer_bilan_financier binary64 jeu_decimales))
     = 1351079888211149 / 2251799813685248"
  by (simp add: calculer_bilan_financier_def jeu_decimales_def calcul_defs
      binary64_decimales)

lemma patrimoine_decimales_eq:
  "calculer_patrimoine binary64 jeu_decimales = Inr patrimoine_decimales"
  by (simp add: calculer_patrimoine_def patrimoine_decimales_def jeu_decimales_def
      calcul_defs binary64_decimales)

subsection \<open>The patrimonial calculator\<close>

lemma calculer_patrimoine_total: "\<exists>r. calculer_patrimoine fl d = Inr r"
  by (simp add: calculer_patrimoine_def ratio_ou_zero_def fdiv_def Let_def)

lemma calculer_patrimoine_champs:
  "calculer_patrimoine fl d = Inr p \<Longrightarrow>
     actifs_economiques p =
       py_sum fl (montants (\<lambda>l. classe l \<in> {2, 3, 4, 5} \<and> sens l = DEBIT) (lignes d))
     \<and> dettes_financieres p =
       py_sum fl (montants (\<lambda>l. classe l = 1 \<and> sens l = CREDIT
                               \<and> \<not> startswith (code_compte l) ''11'') (lignes d))
     \<and> capitaux_propres_retraites p =
       py_sum fl (montants (\<lambda>l. classe l = 1 \<and> sens l = CREDIT
                               \<and> startswith (code_compte l) ''11'') (lignes d))"
  by (auto simp: calculer_patrimoine_def Let_def split: sum.splits)

section \<open>Construction of entries and datasets\<close>

text \<open>
  Claim C6. Constructing a \<open>LigneCompte\<close> fails exactly when the account code has fewer
  than 3 characters, or the class is outside 1..9, or the amount is negative; every
  failure is a \<open>ValueError\<close>, and otherwise the entry is returned with the given field
  values unchanged.
\<close>

theorem LigneCompte_init_fails_iff:
  "((\<exists>e. LigneCompte_init code lib cl s m p = Inl e)
      \<longleftrightarrow> length code < 3 \<or> cl < 1 \<or> 9 < cl \<or> m < 0)
   \<and> (\<forall>e. LigneCompte_init code lib cl s m p = Inl e \<longrightarrow> (\<exists>r. e = ValueError r))
   \<and> (\<not> (length code < 3 \<or> cl < 1 \<or> 9 < cl \<or> m < 0) \<longrightarrow>
        LigneCompte_init code lib cl s m p =
          Inr \<lparr>code_compte = code, libelle = lib, classe = cl, sens = s,
               montant = m, periode = p\<rparr>)"
  by (auto simp: LigneCompte_init_def)

theorem LigneCompte_init_fails_iff_witness:
  "\<not> (length ''1111'' < 3 \<or> (1::int) < 1 \<or> (9::int) < 1 \<or> (100000::rat) < 0)
   \<and> LigneCompte_init ''1111'' ''Capital social'' 1 CREDIT 100000 ''2024'' =
       Inr \<lparr>code_compte = ''1111'', libelle = ''Capital social'', classe = 1,
            sens = CREDIT, montant = 100000, periode = ''2024''\<rparr>
   \<and> (\<exists>e. LigneCompte_init ''11'' ''Capital social'' 1 CREDIT 100000 ''2024'' = Inl e)"
  using LigneCompte_init_fails_iff [of "''1111''" "''Capital social''" 1 CREDIT 100000 "''2024''"]
    LigneCompte_init_fails_iff [of "''11''" "''Capital social''" 1 CREDIT 100000 "''2024''"]
  by simp

text \<open>
  Claim C5. Constructing a \<open>JeuDonnees\<close> fails exactly when the list of entries is empty
  or the absolute difference between the sum of the DEBIT amounts and the sum of the
  CREDIT amounts exceeds 0.01; every failure is a \<open>ValueError\<close>, and otherwise the
  dataset is returned and holds exactly the entries supplied. This holds whatever the
  rounding of the arithmetic is: the sums, the difference and the literal 0.01 are the
  ones the source computes.
\<close>

theorem JeuDonnees_init_fails_iff:
  "((\<exists>e. JeuDonnees_init fl ls p en = Inl e)
      \<longleftrightarrow> ls = [] \<or>
          \<bar>fsub fl (total_sens fl DEBIT ls) (total_sens fl CREDIT ls)\<bar> > fl (1 / 100))
   \<and> (\<forall>e. JeuDonnees_init fl ls p en = Inl e \<longrightarrow> (\<exists>r. e = ValueError r))
   \<and> (\<not> (ls = [] \<or>
          \<bar>fsub fl (total_sens fl DEBIT ls) (total_sens fl CREDIT ls)\<bar> > fl (1 / 100)) \<longrightarrow>
        JeuDonnees_init fl ls p en = Inr \<lparr>lignes = ls, periode = p, entreprise = en\<rparr>)"
  by (auto simp: JeuDonnees_init_def Let_def)

theorem JeuDonnees_init_fails_iff_witness:
  "\<not> (lignes_scenario = [] \<or>
        \<bar>fsub binary64 (total_sens binary64 DEBIT lignes_scenario)
           (total_sens binary64 CREDIT lignes_scenario)\<bar> > binary64 (1 / 100))
   \<and> JeuDonnees_init binary64 lignes_scenario ''2024'' ''Test Entreprise''
       = Inr \<lparr>lignes = lignes_scenario, periode = ''2024'',
              entreprise = ''Test Entreprise''\<rparr>
   \<and> (\<exists>e. JeuDonnees_init binary64 [] ''2024'' ''Test Entreprise'' = Inl e)
   \<and> (\<exists>e. JeuDonnees_init binary64 (butlast lignes_scenario) ''2024''
             ''Test Entreprise'' = Inl e)"
proof -
  have a: "\<not> (lignes_scenario = [] \<or>
        \<bar>fsub binary64 (total_sens binary64 DEBIT lignes_scenario)
           (total_sens binary64 CREDIT lignes_scenario)\<bar> > binary64 (1 / 100))"
    by (simp add: lignes_scenario_def calcul_defs fadd_def fsub_def binary64_entier
        binary64_centieme)
  have b: "\<bar>fsub binary64 (total_sens binary64 DEBIT (butlast lignes_scenario))
           (total_sens binary64 CREDIT (butlast lignes_scenario))\<bar> > binary64 (1 / 100)"
    by (simp add: lignes_scenario_def calcul_defs fadd_def fsub_def binary64_entier
        binary64_centieme)
  from a b
    JeuDonnees_init_fails_iff [of binary64 lignes_scenario "''2024''" "''Test Entreprise''"]
    JeuDonnees_init_fails_iff [of binary64 "[]" "''2024''" "''Test Entreprise''"]
    JeuDonnees_init_fails_iff [of binary64 "butlast lignes_scenario" "''2024''"
      "''Test Entreprise''"]
  show ?thesis by blast
qed

section \<open>The functional report\<close>

text \<open>
  Claim C1 fails on the code. The claim: for every valid dataset the functional report
  satisfies \<open>frng = bfr + tresorerie_nette\<close>. The dataset \<open>jeu_charge\<close> (an expense of
  100 paid from the bank: class 6 debit, class 5 credit) is valid, and on it \<open>frng\<close> is
  100 while \<open>bfr + tresorerie_nette\<close> is -100: the class 5 credit is counted in
  \<open>ressources_stables\<close> and again in \<open>tresorerie_passive\<close>, and the class 6 debit is
  counted nowhere. All the amounts are integers, so no rounding is involved.
\<close>

theorem frng_identity_counterexample:
  "jeu_valide binary64 jeu_charge
   \<and> frng (calculer_bilan_fonctionnel binary64 jeu_charge) = 100
   \<and> fadd binary64 (bfr (calculer_bilan_fonctionnel binary64 jeu_charge))
        (tresorerie_nette (calculer_bilan_fonctionnel binary64 jeu_charge)) = - 100
   \<and> frng (calculer_bilan_fonctionnel binary64 jeu_charge)
        \<noteq> fadd binary64 (bfr (calculer_bilan_fonctionnel binary64 jeu_charge))
             (tresorerie_nette (calculer_bilan_fonctionnel binary64 jeu_charge))"
  by (simp add: valide_charge fonctionnel_charge fadd_def binary64_entier)

text \<open>
  The identity also fails on the dataset of the repository's integration test: \<open>frng\<close> is
  63000 and \<open>bfr + tresorerie_nette\<close> is 95000.
\<close>

lemma frng_identity_integration:
  "jeu_valide binary64 jeu_integration
   \<and> frng (calculer_bilan_fonctionnel binary64 jeu_integration) = 63000
   \<and> fadd binary64 (bfr (calculer_bilan_fonctionnel binary64 jeu_integration))
        (tresorerie_nette (calculer_bilan_fonctionnel binary64 jeu_integration)) = 95000"
  by (simp add: valide_integration fonctionnel_integration fadd_def binary64_entier)

section \<open>The financial report\<close>

text \<open>
  Claim C3 fails on the code. The claim: for every valid dataset the financial report
  satisfies \<open>|total_actif - total_passif| \<le> 0.01\<close>. On the valid dataset \<open>jeu_charge\<close>,
  \<open>total_actif\<close> is 0 and \<open>total_passif\<close> is 100: the class 6 debit enters only
  \<open>resultat_net\<close>, and a negative result is left out of \<open>capitaux_propres\<close>.
\<close>

theorem actif_passif_counterexample:
  "jeu_valide binary64 jeu_charge
   \<and> total_actif (calculer_bilan_financier binary64 jeu_charge) = 0
   \<and> total_passif (calculer_bilan_financier binary64 jeu_charge) = 100
   \<and> \<not> \<bar>fsub binary64 (total_actif (calculer_bilan_financier binary64 jeu_charge))
           (total_passif (calculer_bilan_financier binary64 jeu_charge))\<bar>
         \<le> binary64 (1 / 100)"
  by (simp add: valide_charge financier_charge fsub_def binary64_entier binary64_centieme)

text \<open>
  The balance also fails on the dataset of the repository's integration test, where that
  test asserts it: \<open>total_actif\<close> is 205000 and \<open>total_passif\<close> is 190000. The difference
  is the 15000 of class 2 credits (the depreciations 2813 and 2834), which no bucket of
  the financial report counts.
\<close>

lemma actif_passif_integration:
  "jeu_valide binary64 jeu_integration
   \<and> total_actif (calculer_bilan_financier binary64 jeu_integration) = 205000
   \<and> total_passif (calculer_bilan_financier binary64 jeu_integration) = 190000
   \<and> \<not> \<bar>fsub binary64 (total_actif (calculer_bilan_financier binary64 jeu_integration))
           (total_passif (calculer_bilan_financier binary64 jeu_integration))\<bar>
         \<le> binary64 (1 / 100)"
  by (simp add: valide_integration financier_integration fsub_def binary64_entier
      binary64_centieme)

section \<open>The analyzer on a financial report\<close>

text \<open>
  The analyzer raises exactly on a financial report whose \<open>total_actif\<close> is positive and
  whose \<open>total_passif\<close> is zero: the division by \<open>total_passif\<close> is guarded by the test
  on \<open>total_actif\<close>.
\<close>

lemma analyser_rapport_leve_ssi:
  "(\<exists>e. analyser_rapport fl rap = Inl e)
     \<longleftrightarrow> (\<exists>r. rap = Financier r \<and> 0 < total_actif r \<and> total_passif r = 0)"
  by (cases rap) (auto simp: fdiv_def Let_def)

text \<open>
  Claim C2 fails on the code. The dataset \<open>jeu_amorti\<close> (a fixed asset of 100 and its
  depreciation of 100, both of class 2) is valid; its financial report has
  \<open>total_actif = 100\<close> and \<open>total_passif = 0\<close>, and the analyzer raises
  \<open>ZeroDivisionError\<close> on it.
\<close>

theorem analyser_rapport_division_par_zero:
  "jeu_valide binary64 jeu_amorti
   \<and> total_actif (calculer_bilan_financier binary64 jeu_amorti) = 100
   \<and> total_passif (calculer_bilan_financier binary64 jeu_amorti) = 0
   \<and> analyser_rapport binary64 (Financier (calculer_bilan_financier binary64 jeu_amorti))
       = Inl ZeroDivisionError"
  by (simp add: valide_amorti financier_amorti fdiv_def fsub_def binary64_entier)

section \<open>Consistency between the reports\<close>

lemma somme_actif:
  "sum_list (montants (\<lambda>l. classe l = 2 \<and> sens l = DEBIT) ls)
     + sum_list (montants (\<lambda>l. classe l = 3 \<and> sens l = DEBIT) ls)
     + sum_list (montants (\<lambda>l. classe l = 4 \<and> sens l = DEBIT
                              \<and> startswith (code_compte l) ''342'') ls)
     + sum_list (montants (\<lambda>l. classe l = 4 \<and> sens l = DEBIT
                              \<and> \<not> startswith (code_compte l) ''342'') ls)
     + sum_list (montants (\<lambda>l. classe l = 5 \<and> sens l = DEBIT) ls)
   = sum_list (montants (\<lambda>l. classe l \<in> {2, 3, 4, 5} \<and> sens l = DEBIT) ls)"
  by (induction ls) (auto simp: montants_def)

lemma somme_capitaux:
  "sum_list (montants (\<lambda>l. classe l = 1 \<and> sens l = CREDIT
                              \<and> startswith (code_compte l) ''111'') ls)
     + sum_list (montants (\<lambda>l. classe l = 1 \<and> sens l = CREDIT
                              \<and> startswith (code_compte l) ''11''
                              \<and> \<not> startswith (code_compte l) ''111'') ls)
   = sum_list (montants (\<lambda>l. classe l = 1 \<and> sens l = CREDIT
                              \<and> startswith (code_compte l) ''11'') ls)"
  by (induction ls) (auto simp: montants_def dest: startswith_111_11)

text \<open>
  On floats \<open>total_actif\<close> and \<open>actifs_economiques\<close> are not always equal. In the valid
  dataset \<open>jeu_decimales\<close> the debits are 0.3 (class 4), 0.2 (class 3) and 0.1 (class 2).
  \<open>actifs_economiques\<close> adds them in the order of the entries, (0.3 + 0.2) + 0.1, which is
  the float 0.6; \<open>total_actif\<close> adds the buckets in the order of the classes,
  (0.1 + 0.2) + 0.3, which is the next float, 0.6000000000000001.
\<close>

theorem total_actif_actifs_economiques_counterexample:
  "jeu_valide binary64 jeu_decimales
   \<and> calculer_patrimoine binary64 jeu_decimales = Inr patrimoine_decimales
   \<and> actifs_economiques patrimoine_decimales = 5404319552844595 / 9007199254740992
   \<and> total_actif (calculer_bilan_financier binary64 jeu_decimales)
       = 1351079888211149 / 2251799813685248
   \<and> total_actif (calculer_bilan_financier binary64 jeu_decimales)
       \<noteq> actifs_economiques patrimoine_decimales"
  by (simp add: valide_decimales patrimoine_decimales_eq total_actif_decimales)
    (simp add: patrimoine_decimales_def)

text \<open>
  Claim C4, amended. In exact arithmetic, for every dataset, \<open>total_actif\<close> of the
  financial report equals \<open>actifs_economiques\<close> of the patrimonial report: both are the
  sum of the amounts of the DEBIT entries of classes 2 to 5. (On floats the two are
  roundings of that sum, taken in different orders.)
\<close>

theorem total_actif_actifs_economiques_exact:
  "\<exists>p. calculer_patrimoine exact d = Inr p
     \<and> total_actif (calculer_bilan_financier exact d) = actifs_economiques p
     \<and> actifs_economiques p =
         sum_list (montants (\<lambda>l. classe l \<in> {2, 3, 4, 5} \<and> sens l = DEBIT) (lignes d))"
proof -
  obtain p where p: "calculer_patrimoine exact d = Inr p"
    using calculer_patrimoine_total by blast
  have "total_actif (calculer_bilan_financier exact d)
      = sum_list (montants (\<lambda>l. classe l \<in> {2, 3, 4, 5} \<and> sens l = DEBIT) (lignes d))"
    using somme_actif [of "lignes d"]
    by (simp add: calculer_bilan_financier_def Let_def py_sum_exact fadd_exact)
  with p calculer_patrimoine_champs [OF p] show ?thesis
    by (simp add: py_sum_exact)
qed

text \<open>
  On floats \<open>capital_social + reserves\<close> and \<open>capitaux_propres_retraites\<close> are not always
  equal. In \<open>jeu_decimales\<close> the class 1 credits are 0.3 (code 1191), 0.2 (code 1111) and
  0.1 (code 1112): \<open>capitaux_propres_retraites\<close> is (0.3 + 0.2) + 0.1, the float 0.6, and
  \<open>capital_social + reserves\<close> is (0.2 + 0.1) + 0.3, the float 0.6000000000000001.
\<close>

theorem capital_reserves_counterexample:
  "jeu_valide binary64 jeu_decimales
   \<and> calculer_patrimoine binary64 jeu_decimales = Inr patrimoine_decimales
   \<and> capitaux_propres_retraites patrimoine_decimales
       = 5404319552844595 / 9007199254740992
   \<and> fadd binary64 (capital_social (calculer_bilan_financier binary64 jeu_decimales))
        (reserves (calculer_bilan_financier binary64 jeu_decimales))
       = 1351079888211149 / 2251799813685248
   \<and> fadd binary64 (capital_social (calculer_bilan_financier binary64 jeu_decimales))
        (reserves (calculer_bilan_financier binary64 jeu_decimales))
       \<noteq> capitaux_propres_retraites patrimoine_decimales"
  by (simp add: valide_decimales patrimoine_decimales_eq capital_reserves_decimales)
    (simp add: patrimoine_decimales_def)

text \<open>
  Claim C10, amended. In exact arithmetic, for every dataset, \<open>capital_social\<close> plus
  \<open>reserves\<close> of the financial report equals \<open>capitaux_propres_retraites\<close> of the
  patrimonial report: the tests "starts with 111" and "starts with 11 and not with 111"
  split the class 1 CREDIT entries whose code starts with 11.
\<close>

theorem capital_reserves_exact:
  "\<exists>p. calculer_patrimoine exact d = Inr p
     \<and> fadd exact (capital_social (calculer_bilan_financier exact d))
          (reserves (calculer_bilan_financier exact d))
        = capitaux_propres_retraites p
     \<and> capitaux_propres_retraites p =
         sum_list (montants (\<lambda>l. classe l = 1 \<and> sens l = CREDIT
                                  \<and> startswith (code_compte l) ''11'') (lignes d))"
proof -
  obtain p where p: "calculer_patrimoine exact d = Inr p"
    using calculer_patrimoine_total by blast
  have "capital_social (calculer_bilan_financier exact d)
          + reserves (calculer_bilan_financier exact d)
      = sum_list (montants (\<lambda>l. classe l = 1 \<and> sens l = CREDIT
                              \<and> startswith (code_compte l) ''11'') (lignes d))"
    using somme_capitaux [of "lignes d"]
    by (simp add: calculer_bilan_financier_def Let_def py_sum_exact)
  with p calculer_patrimoine_champs [OF p] show ?thesis
    by (simp add: py_sum_exact fadd_exact)
qed

section \<open>The patrimonial ratios\<close>

text \<open>
  Claim C7. For every valid dataset, the patrimonial calculator returns without raising,
  \<open>ratio_endettement\<close> is 0 when \<open>actifs_economiques\<close> is 0 and is the quotient
  \<open>dettes_financieres / actifs_economiques\<close> otherwise, and \<open>ratio_solvabilite\<close> is 0 when
  \<open>dettes_financieres\<close> is 0 and is the quotient
  \<open>capitaux_propres_retraites / dettes_financieres\<close> otherwise. The rounding may be any
  that keeps numbers that are not negative so (binary64 and exact arithmetic do).
\<close>

theorem ratios_patrimoine:
  assumes fl: "\<forall>x. 0 \<le> x \<longrightarrow> 0 \<le> fl x" and v: "jeu_valide fl d"
  shows "\<exists>r. calculer_patrimoine fl d = Inr r
     \<and> ratio_endettement r =
         Some (if actifs_economiques r = 0 then 0
               else fl (dettes_financieres r / actifs_economiques r))
     \<and> ratio_solvabilite r =
         Some (if dettes_financieres r = 0 then 0
               else fl (capitaux_propres_retraites r / dettes_financieres r))"
proof -
  from v have ls: "list_all ligne_valide (lignes d)" by (simp add: jeu_valide_def)
  have pos: "0 \<le> py_sum fl (montants P (lignes d))" for P
    using fl montants_nonneg [OF ls] by (rule py_sum_nonneg)
  have a: "0 \<le> py_sum fl
      (montants (\<lambda>l. classe l \<in> {2, 3, 4, 5} \<and> sens l = DEBIT) (lignes d))"
    by (rule pos)
  have b: "0 \<le> py_sum fl
      (montants (\<lambda>l. classe l = 1 \<and> sens l = CREDIT
                    \<and> \<not> startswith (code_compte l) ''11'') (lignes d))"
    by (rule pos)
  from a b show ?thesis
    by (auto simp: calculer_patrimoine_def ratio_ou_zero_def fdiv_def Let_def)
qed

theorem ratios_patrimoine_witness:
  "jeu_valide binary64 jeu_emprunt
   \<and> (\<exists>r. calculer_patrimoine binary64 jeu_emprunt = Inr r
        \<and> actifs_economiques r = 150000 \<and> dettes_financieres r = 50000
        \<and> capitaux_propres_retraites r = 100000
        \<and> ratio_endettement r = Some (binary64 (1 / 3))
        \<and> ratio_solvabilite r = Some 2)"
proof -
  have fl: "\<forall>x. 0 \<le> x \<longrightarrow> 0 \<le> binary64 x" by (simp add: binary64_nonneg)
  obtain r where r: "calculer_patrimoine binary64 jeu_emprunt = Inr r"
    and re: "ratio_endettement r =
         Some (if actifs_economiques r = 0 then 0
               else binary64 (dettes_financieres r / actifs_economiques r))"
    and rs: "ratio_solvabilite r =
         Some (if dettes_financieres r = 0 then 0
               else binary64 (capitaux_propres_retraites r / dettes_financieres r))"
    using ratios_patrimoine [OF fl valide_emprunt] by blast
  have c: "actifs_economiques r = 150000" "dettes_financieres r = 50000"
    "capitaux_propres_retraites r = 100000"
    using calculer_patrimoine_champs [OF r]
    by (simp_all add: jeu_emprunt_def calcul_defs fadd_def binary64_entier)
  from r re rs c valide_emprunt show ?thesis
    by (simp add: binary64_entier)
qed

section \<open>The analyzer on a patrimonial report\<close>




section \<open>The end-to-end scenario\<close>

text \<open>
  Claim C9. The nine entries of the scenario are valid entries and form a valid dataset
  (122000 on each side), and on it the three calculators return the values listed: the
  functional report, the financial report and the patrimonial report below.
\<close>

theorem scenario_bout_en_bout:
  "jeu_valide binary64 jeu_scenario
   \<and> total_sens binary64 DEBIT (lignes jeu_scenario) = 122000
   \<and> total_sens binary64 CREDIT (lignes jeu_scenario) = 122000
   \<and> calculer_bilan_fonctionnel binary64 jeu_scenario =
       \<lparr>emplois_stables = 30000, ressources_stables = 110000, frng = 80000,
        actifs_circulants = 35000, passifs_circulants = 12000, bfr = 23000,
        tresorerie_active = 57000, tresorerie_passive = 0, tresorerie_nette = 57000,
        periode = ''2024''\<rparr>
   \<and> calculer_bilan_financier binary64 jeu_scenario =
       \<lparr>immobilisations_nettes = 30000, stocks = 15000, creances_clients = 20000,
        autres_creances = 0, tresorerie_active = 57000, total_actif = 122000,
        capital_social = 100000, reserves = 10000, resultat_net = 0,
        capitaux_propres = 110000, dettes_financieres_lt = 0,
        dettes_fournisseurs = 12000, autres_dettes_ct = 0, tresorerie_passive = 0,
        total_passif = 122000, periode = ''2024''\<rparr>
   \<and> calculer_patrimoine binary64 jeu_scenario =
       Inr \<lparr>actifs_economiques = 122000, dettes_financieres = 0,
            actif_net_comptable = 122000, capitaux_propres_retraites = 110000,
            patrimoine_net = 122000, periode = ''2024'',
            ratio_endettement = Some 0, ratio_solvabilite = Some 0,
            ratio_liquidite = Some 1\<rparr>"
proof -
  have d: "total_sens binary64 DEBIT (lignes jeu_scenario) = 122000"
    by (simp add: jeu_scenario_def lignes_scenario_def calcul_defs fadd_def
        binary64_entier)
  have c: "total_sens binary64 CREDIT (lignes jeu_scenario) = 122000"
    by (simp add: jeu_scenario_def lignes_scenario_def calcul_defs fadd_def
        binary64_entier)
  have p: "calculer_patrimoine binary64 jeu_scenario =
       Inr \<lparr>actifs_economiques = 122000, dettes_financieres = 0,
            actif_net_comptable = 122000, capitaux_propres_retraites = 110000,
            patrimoine_net = 122000, periode = ''2024'',
            ratio_endettement = Some 0, ratio_solvabilite = Some 0,
            ratio_liquidite = Some 1\<rparr>"
    using patrimoine_scenario_eq by (simp only: patrimoine_scenario_def)
  from valide_scenario d c fonctionnel_scenario financier_scenario p
  show ?thesis by (intro conjI)
qed

end
